theory Spec2Isabelle
  imports Complex_Main "HOL-Library.Sublist"
begin

section \<open>The retrieval-relevance gate of \<^verbatim>\<open>backend/rag_engine.py\<close>\<close>

text \<open>
  Conventions of the embedding.
  \<^item> A Python \<^verbatim>\<open>float\<close> (the cosine distances of the vector store, the relevance
    percentages, mean and standard deviation) is a \<^typ>\<open>real\<close>: arithmetic is exact,
    rounding, overflow and underflow of IEEE doubles are not modelled.
  \<^item> A Python \<^verbatim>\<open>str\<close> is a \<^typ>\<open>string\<close>, one \<^typ>\<open>char\<close> for each code point
    (code points below 256).
  \<^item> An exception is a value: a computation that may raise returns \<open>exn + 'a\<close>,
    \<open>Inl\<close> for the exception raised.
  \<^item> The \<^verbatim>\<open>print\<close> and \<^verbatim>\<open>logger\<close> calls are diagnostic and left out.
\<close>

subsection \<open>Data\<close>

text \<open>A LangChain \<^verbatim>\<open>Document\<close>: the chunk text and its metadata.\<close>

datatype document = Document (page_content: string) (metadata: "(string \<times> string) list")

text \<open>
  An exception raised by a collaborator: an instance of \<^verbatim>\<open>Exception\<close> (what
  \<^verbatim>\<open>except Exception as e\<close> catches), with the text \<^verbatim>\<open>str(e)\<close>.
\<close>

datatype exn = Exception (str: string)

text \<open>
  What \<^verbatim>\<open>qa_chain.invoke\<close> returns: a dict (a chain returns its inputs and, under
  the key \<^verbatim>\<open>"result"\<close>, the generated text), or, for the branch
  \<^verbatim>\<open>isinstance(response, dict)\<close> being false, a plain string.
\<close>

datatype response = Dict "(string \<times> string) list" | Text string

text \<open>The calls to the two collaborators, in the order they are made.\<close>

datatype call =
  Similarity_search string nat  \<comment> \<open>\<^verbatim>\<open>vectordb.similarity_search_with_score(query, k=k)\<close>\<close>
| Invoke string string  \<comment> \<open>\<^verbatim>\<open>qa_chain.invoke({"query": query, "context": context})\<close>\<close>

type_synonym vectordb = "string \<Rightarrow> nat \<Rightarrow> exn + (document \<times> real) list"
type_synonym chain = "string \<Rightarrow> string \<Rightarrow> exn + response"

subsection \<open>Strings\<close>

text \<open>\<^verbatim>\<open>str.isspace\<close> on one code point below 256.\<close>

definition isspace :: "char \<Rightarrow> bool" where
  "isspace c = (of_char c \<in> {9, 10, 11, 12, 13, 28, 29, 30, 31, 32, 133, 160 :: nat})"

text \<open>\<^verbatim>\<open>s.strip()\<close>: leading and trailing whitespace removed.\<close>

definition strip :: "string \<Rightarrow> string" where
  "strip s = rev (dropWhile isspace (rev (dropWhile isspace s)))"

text \<open>\<^verbatim>\<open>not s or not s.strip()\<close>, the test of a blank string.\<close>

definition blank :: "string \<Rightarrow> bool" where
  "blank s = (s = [] \<or> strip s = [])"

subsection \<open>Scores and threshold\<close>

text \<open>\<^verbatim>\<open>calculate_relevance_score\<close>, lines 99 to 102.\<close>

definition calculate_relevance_score :: "real \<Rightarrow> real" where
  "calculate_relevance_score score = 100 * exp (- 3 * score)"

text \<open>
  \<^verbatim>\<open>np.mean\<close> and \<^verbatim>\<open>np.std\<close> (default \<^verbatim>\<open>ddof=0\<close>: the square root of the mean of
  the squared deviations from the mean). Both are called on non-empty lists only.
\<close>

definition np_mean :: "real list \<Rightarrow> real" where
  "np_mean xs = sum_list xs / real (length xs)"

definition np_std :: "real list \<Rightarrow> real" where
  "np_std xs = sqrt (np_mean (map (\<lambda>x. \<bar>x - np_mean xs\<bar> ^ 2) xs))"

text \<open>The standard deviation the code uses: \<^verbatim>\<open>np.std(all_scores) if len(all_scores) > 1 else 0\<close>.\<close>

definition std_score :: "real list \<Rightarrow> real" where
  "std_score all_scores = (if length all_scores > 1 then np_std all_scores else 0)"

text \<open>The dynamic threshold, lines 126 to 143 of \<^verbatim>\<open>get_rag_response\<close>.\<close>

definition select_threshold :: "real list \<Rightarrow> real" where
  "select_threshold all_scores =
     (if all_scores \<noteq> [] then
        (let mean_score = np_mean all_scores;
             base_threshold = 60
         in if mean_score < 40 \<or> std_score all_scores > 20
            then base_threshold + 10
            else base_threshold)
      else 60)"

subsection \<open>The two passes over the retrieved candidates\<close>

text \<open>First pass, lines 119 to 123: one relevance score appended for each candidate.\<close>

fun first_pass :: "(document \<times> real) list \<Rightarrow> real list \<Rightarrow> real list" where
  "first_pass [] all_scores = all_scores"
| "first_pass ((doc, score) # rest) all_scores =
     first_pass rest (all_scores @ [calculate_relevance_score score])"

text \<open>
  Second pass, lines 145 to 160: over \<^verbatim>\<open>zip(docs_and_scores, all_scores)\<close>, a document
  is appended to \<^verbatim>\<open>filtered_docs\<close> when \<^verbatim>\<open>relevance_score >= threshold\<close>.
\<close>

fun second_pass ::
  "real \<Rightarrow> ((document \<times> real) \<times> real) list \<Rightarrow> document list \<Rightarrow> document list" where
  "second_pass threshold [] filtered_docs = filtered_docs"
| "second_pass threshold (((doc, score), relevance_score) # rest) filtered_docs =
     (if relevance_score \<ge> threshold
      then second_pass threshold rest (filtered_docs @ [doc])
      else second_pass threshold rest filtered_docs)"

subsection \<open>The pipeline: \<^verbatim>\<open>get_rag_response\<close>\<close>

definition prompt_for_input :: string where
  "prompt_for_input = ''Please provide a valid question.''"

definition fallback_text :: string where
  "fallback_text = ''I don't have any relevant information from the provided documents to answer your question. Let me answer based on my general knowledge.''"

definition apology_text :: string where
  "apology_text = ''I apologize, but I couldn't generate a meaningful response. Please try rephrasing your question.''"

text \<open>\<^verbatim>\<open>sep.join(parts)\<close>.\<close>

fun join :: "string \<Rightarrow> string list \<Rightarrow> string" where
  "join sep [] = []"
| "join sep [x] = x"
| "join sep (x # y # ys) = x @ sep @ join sep (y # ys)"

text \<open>
  \<^verbatim>\<open>if isinstance(response, dict): response = response.get("result", "")\<close>.
\<close>

definition result_of :: "response \<Rightarrow> string" where
  "result_of response =
     (case response of
        Dict d \<Rightarrow> (case map_of d ''result'' of Some v \<Rightarrow> v | None \<Rightarrow> [])
      | Text s \<Rightarrow> s)"

text \<open>
  The body of the \<^verbatim>\<open>try\<close> statement, lines 109 to 186. It returns what the body
  returns or the exception that leaves it, and the calls made to the collaborators.
\<close>

definition try_block :: "vectordb \<Rightarrow> chain \<Rightarrow> string \<Rightarrow> (exn + string) \<times> call list" where
  "try_block similarity_search_with_score qa_chain_invoke query =
     (case similarity_search_with_score query 3 of
        Inl e \<Rightarrow> (Inl e, [Similarity_search query 3])
      | Inr docs_and_scores \<Rightarrow>
          (let all_scores = first_pass docs_and_scores [];
               threshold = select_threshold all_scores;
               filtered_docs = second_pass threshold (zip docs_and_scores all_scores) []
           in if filtered_docs = [] then
                (case qa_chain_invoke query [] of
                   Inl e \<Rightarrow> (Inl e, [Similarity_search query 3, Invoke query []])
                 | Inr response \<Rightarrow>
                     (let response = result_of response
                      in (Inr (if response \<noteq> [] then response else fallback_text),
                          [Similarity_search query 3, Invoke query []])))
              else
                (let context = join ''\<newline>\<newline>'' (map page_content filtered_docs)
                 in case qa_chain_invoke query context of
                      Inl e \<Rightarrow> (Inl e, [Similarity_search query 3, Invoke query context])
                    | Inr response \<Rightarrow>
                        (let response = result_of response
                         in (Inr (if blank response then apology_text else response),
                             [Similarity_search query 3, Invoke query context])))))"

text \<open>
  \<^verbatim>\<open>get_rag_response\<close>: the blank test, then the \<^verbatim>\<open>try\<close> body under
  \<^verbatim>\<open>except Exception as e\<close>, which returns \<^verbatim>\<open>f"Error processing query: {str(e)}"\<close>.
  \<open>Inl\<close> in the result would be an exception that reaches the caller.
\<close>

definition get_rag_response :: "vectordb \<Rightarrow> chain \<Rightarrow> string \<Rightarrow> (exn + string) \<times> call list" where
  "get_rag_response similarity_search_with_score qa_chain_invoke query =
     (if blank query then (Inr prompt_for_input, [])
      else
        (case try_block similarity_search_with_score qa_chain_invoke query of
           (Inl e, calls) \<Rightarrow> (Inr (''Error processing query: '' @ str e), calls)
         | (Inr answer, calls) \<Rightarrow> (Inr answer, calls)))"

subsection \<open>The chain: \<^verbatim>\<open>qa_chain\<close>, lines 59 to 97\<close>

text \<open>\<^verbatim>\<open>custom_prompt\<close>: the template with its two slots filled.\<close>

definition custom_prompt :: "string \<Rightarrow> string \<Rightarrow> string" where
  "custom_prompt context question =
     ''\<newline>You are a helpful and concise assistant. You will be provided with a question and some context.\<newline>''
   @ ''\<newline>Instructions:\<newline>''
   @ ''1. ONLY use the provided context if it contains RELEVANT information to answer the question.\<newline>''
   @ ''2. If the context is NOT relevant, IGNORE it and answer the question using your own knowledge.\<newline>''
   @ ''3. Do NOT generate creative or fictional answers.\<newline>''
   @ ''4. Do NOT attempt to justify or infer using the context if it's unrelated.\<newline>''
   @ ''5. Keep your response short and factual.\<newline>''
   @ ''\<newline>Context:\<newline>'' @ context @ ''\<newline>''
   @ ''\<newline>Question:\<newline>'' @ question @ ''\<newline>''
   @ ''\<newline>Answer:\<newline>''"

text \<open>
  \<^verbatim>\<open>retriever = vectordb.as_retriever(search_type="similarity", search_kwargs={"k": 3})\<close>:
  the documents of the three nearest candidates of the same vector store, without their
  distances.
\<close>

definition retriever :: "vectordb \<Rightarrow> string \<Rightarrow> exn + document list" where
  "retriever similarity_search_with_score query =
     (case similarity_search_with_score query 3 of
        Inl e \<Rightarrow> Inl e
      | Inr docs_and_scores \<Rightarrow> Inr (map fst docs_and_scores))"

text \<open>
  \<^verbatim>\<open>qa_chain = RetrievalQA.from_chain_type(llm=llm, retriever=retriever,
  chain_type_kwargs={"prompt": custom_prompt})\<close>. The class is LangChain's and its code is
  not in the repository; the model follows what the class does when invoked. Its one input
  key is \<^verbatim>\<open>"query"\<close>. It asks its own retriever for the documents of the query, joins
  their \<^verbatim>\<open>page_content\<close> with a blank line into the slot \<^verbatim>\<open>{context}\<close> of the prompt,
  puts the query into \<^verbatim>\<open>{question}\<close>, and sends that prompt to the language model. A key
  \<^verbatim>\<open>"context"\<close> among the inputs is not read; it comes back in the returned dict with
  the other inputs, beside the generated text under \<^verbatim>\<open>"result"\<close>.

  \<open>qa_chain_prompt\<close> is the prompt the chain sends to the language model.
\<close>

definition qa_chain_prompt :: "vectordb \<Rightarrow> string \<Rightarrow> string \<Rightarrow> exn + string" where
  "qa_chain_prompt similarity_search_with_score query context =
     (case retriever similarity_search_with_score query of
        Inl e \<Rightarrow> Inl e
      | Inr docs \<Rightarrow> Inr (custom_prompt (join ''\<newline>\<newline>'' (map page_content docs)) query))"

definition qa_chain :: "vectordb \<Rightarrow> (string \<Rightarrow> exn + string) \<Rightarrow> chain" where
  "qa_chain similarity_search_with_score llm query context =
     (case qa_chain_prompt similarity_search_with_score query context of
        Inl e \<Rightarrow> Inl e
      | Inr prompt \<Rightarrow>
          (case llm prompt of
             Inl e \<Rightarrow> Inl e
           | Inr text \<Rightarrow> Inr (Dict [(''query'', query), (''context'', context), (''result'', text)])))"

subsection \<open>The endpoint: \<^verbatim>\<open>rag_chat\<close> of \<^verbatim>\<open>backend/rag_service.py\<close>\<close>

text \<open>A decoded JSON value, as \<^verbatim>\<open>request.json()\<close> returns it.\<close>

datatype json =
  JNull | JBool bool | JInt int | JFloat real | JStr string
| JList "json list" | JObj "(string \<times> json) list"

text \<open>Python's truth value of a decoded JSON value (\<^verbatim>\<open>not query\<close> is its negation).\<close>

fun truthy :: "json \<Rightarrow> bool" where
  "truthy JNull = False"
| "truthy (JBool b) = b"
| "truthy (JInt i) = (i \<noteq> 0)"
| "truthy (JFloat x) = (x \<noteq> 0)"
| "truthy (JStr s) = (s \<noteq> [])"
| "truthy (JList xs) = (xs \<noteq> [])"
| "truthy (JObj kvs) = (kvs \<noteq> [])"

fun type_name :: "json \<Rightarrow> string" where
  "type_name JNull = ''NoneType''"
| "type_name (JBool b) = ''bool''"
| "type_name (JInt i) = ''int''"
| "type_name (JFloat x) = ''float''"
| "type_name (JStr s) = ''str''"
| "type_name (JList xs) = ''list''"
| "type_name (JObj kvs) = ''dict''"

text \<open>The \<^verbatim>\<open>AttributeError\<close> of a method call on a value whose type has no such method.\<close>

definition attribute_error :: "json \<Rightarrow> string \<Rightarrow> exn" where
  "attribute_error v name =
     Exception ([CHR 0x27] @ type_name v @ [CHR 0x27] @ '' object has no attribute ''
                @ [CHR 0x27] @ name @ [CHR 0x27])"

text \<open>\<^verbatim>\<open>body.get("message")\<close>: \<^verbatim>\<open>None\<close> for a dict without the key.\<close>

definition body_get :: "json \<Rightarrow> string \<Rightarrow> exn + json" where
  "body_get body key =
     (case body of
        JObj kvs \<Rightarrow> (case map_of kvs key of Some v \<Rightarrow> Inr v | None \<Rightarrow> Inr JNull)
      | _ \<Rightarrow> Inl (attribute_error body ''get''))"

text \<open>
  The call \<^verbatim>\<open>get_rag_response(query)\<close> on a truthy decoded value: on a value that is not
  a string, \<^verbatim>\<open>query.strip()\<close> of the blank test raises, outside the \<^verbatim>\<open>try\<close> of
  \<^verbatim>\<open>get_rag_response\<close>.
\<close>

definition call_get_rag_response :: "vectordb \<Rightarrow> chain \<Rightarrow> json \<Rightarrow> exn + string" where
  "call_get_rag_response similarity_search_with_score qa_chain_invoke query =
     (case query of
        JStr s \<Rightarrow> fst (get_rag_response similarity_search_with_score qa_chain_invoke s)
      | _ \<Rightarrow> Inl (attribute_error query ''strip''))"

text \<open>
  FastAPI's \<^verbatim>\<open>HTTPException(status_code, detail)\<close>; raised out of the endpoint it
  becomes the response with that status code.
\<close>

datatype http_exception = HTTPException (status_code: nat) (detail: string)

text \<open>What can be raised inside the \<^verbatim>\<open>try\<close> of \<^verbatim>\<open>rag_chat\<close>.\<close>

datatype raised = Http http_exception | Other exn

text \<open>
  \<^verbatim>\<open>str(e)\<close> in the handler. The text of an \<open>HTTPException\<close> is the web
  framework's and is a parameter, \<open>str_http\<close>.
\<close>

definition str_raised :: "(http_exception \<Rightarrow> string) \<Rightarrow> raised \<Rightarrow> string" where
  "str_raised str_http r = (case r of Http h \<Rightarrow> str_http h | Other e \<Rightarrow> str e)"

text \<open>
  The body of the \<^verbatim>\<open>try\<close> statement of \<^verbatim>\<open>rag_chat\<close>, lines 15 to 30. Its argument
  is the outcome of \<^verbatim>\<open>await request.json()\<close>.
\<close>

definition rag_chat_try ::
  "vectordb \<Rightarrow> chain \<Rightarrow> exn + json \<Rightarrow> raised + (string \<times> string) list" where
  "rag_chat_try similarity_search_with_score qa_chain_invoke request_json =
     (case request_json of
        Inl e \<Rightarrow> Inl (Other e)
      | Inr body \<Rightarrow>
          (case body_get body ''message'' of
             Inl e \<Rightarrow> Inl (Other e)
           | Inr query \<Rightarrow>
               if \<not> truthy query
               then Inl (Http (HTTPException 400 ''No message provided in request''))
               else
                 (case call_get_rag_response similarity_search_with_score qa_chain_invoke query of
                    Inl e \<Rightarrow> Inl (Other e)
                  | Inr response \<Rightarrow>
                      if response = []
                      then Inr [(''answer'', ''I apologize, but I couldn't generate a response. Please try again.'')]
                      else Inr [(''answer'', response)])))"

text \<open>
  \<^verbatim>\<open>rag_chat\<close>: the \<^verbatim>\<open>try\<close> body under
  \<^verbatim>\<open>except Exception as e: raise HTTPException(status_code=500, detail=str(e))\<close>.
  \<open>HTTPException\<close> is a subclass of \<^verbatim>\<open>Exception\<close>, so the handler also receives the
  one raised in the body.
\<close>

definition rag_chat ::
  "(http_exception \<Rightarrow> string) \<Rightarrow> vectordb \<Rightarrow> chain \<Rightarrow> exn + json
     \<Rightarrow> http_exception + (string \<times> string) list" where
  "rag_chat str_http similarity_search_with_score qa_chain_invoke request_json =
     (case rag_chat_try similarity_search_with_score qa_chain_invoke request_json of
        Inl e \<Rightarrow> Inl (HTTPException 500 (str_raised str_http e))
      | Inr answer \<Rightarrow> Inr answer)"

text \<open>The status code of the HTTP response: 200 for a returned dict.\<close>

definition response_status :: "http_exception + (string \<times> string) list \<Rightarrow> nat" where
  "response_status r = (case r of Inl h \<Rightarrow> status_code h | Inr answer \<Rightarrow> 200)"

subsection \<open>The words of the specification\<close>

text \<open>
  The mean and the population standard deviation of a batch as the specification words
  them (the standard deviation of a single-element batch is 0), to be compared with what
  the code computes.
\<close>

definition batch_mean :: "real list \<Rightarrow> real" where
  "batch_mean scores = (\<Sum>x\<leftarrow>scores. x) / real (length scores)"

definition population_std :: "real list \<Rightarrow> real" where
  "population_std scores =
     (if length scores = 1 then 0
      else sqrt ((\<Sum>x\<leftarrow>scores. (x - batch_mean scores)\<^sup>2) / real (length scores)))"

text \<open>
  The accepted documents of a list of candidates, as the \<^verbatim>\<open>try\<close> body computes them
  in its two passes.
\<close>

definition filtered_docs_of :: "(document \<times> real) list \<Rightarrow> document list" where
  "filtered_docs_of docs_and_scores =
     (let all_scores = first_pass docs_and_scores [];
          threshold = select_threshold all_scores
      in second_pass threshold (zip docs_and_scores all_scores) [])"

subsection \<open>Collaborators for the examples\<close>

definition cheese_doc :: document where
  "cheese_doc = Document ''The moon is made of green cheese.'' []"

text \<open>A vector store with one chunk, found at cosine distance 1 from every query.\<close>

definition far_db :: vectordb where
  "far_db query k = Inr [(cheese_doc, 1)]"

text \<open>A vector store with the same chunk at distance 0.\<close>

definition near_db :: vectordb where
  "near_db query k = Inr [(cheese_doc, 0)]"

text \<open>A vector store whose search raises.\<close>

definition broken_db :: vectordb where
  "broken_db query k = Inl (Exception ''connection refused'')"

text \<open>Chains that return the empty text, a fixed text, or raise.\<close>

definition silent_chain :: chain where
  "silent_chain query context = Inr (Dict [(''query'', query), (''result'', [])])"

definition fixed_chain :: chain where
  "fixed_chain query context = Inr (Dict [(''query'', query), (''result'', ''42'')])"

definition broken_chain :: chain where
  "broken_chain query context = Inl (Exception ''model not found'')"

text \<open>A language model that answers every prompt with the same text.\<close>

definition fixed_llm :: "string \<Rightarrow> exn + string" where
  "fixed_llm prompt = Inr ''42''"

section \<open>Auxiliary facts\<close>


lemma first_pass_eq:
  "first_pass docs_and_scores all_scores =
     all_scores @ map (\<lambda>c. calculate_relevance_score (snd c)) docs_and_scores"
  by (induction docs_and_scores all_scores rule: first_pass.induct) simp_all

lemma second_pass_eq:
  "second_pass threshold zs filtered_docs =
     filtered_docs @ map (\<lambda>z. fst (fst z)) (filter (\<lambda>z. threshold \<le> snd z) zs)"
  by (induction threshold zs filtered_docs rule: second_pass.induct) simp_all

lemma zip_nth_map:
  "zip xs ys = map (\<lambda>i. (xs ! i, ys ! i)) [0..<min (length xs) (length ys)]"
  by (rule nth_equalityI) simp_all

lemma dropWhile_all_iff:
  "(\<forall>x\<in>set (dropWhile P xs). P x) \<longleftrightarrow> (\<forall>x\<in>set xs. P x)"
proof
  assume all: "\<forall>x\<in>set (dropWhile P xs). P x"
  have "dropWhile P xs = []"
  proof (rule ccontr)
    assume ne: "dropWhile P xs \<noteq> []"
    then have "\<not> P (hd (dropWhile P xs))" by (rule hd_dropWhile)
    moreover have "hd (dropWhile P xs) \<in> set (dropWhile P xs)" using ne by simp
    ultimately show False using all by blast
  qed
  then show "\<forall>x\<in>set xs. P x" by (simp add: dropWhile_eq_Nil_conv)
next
  assume "\<forall>x\<in>set xs. P x"
  then show "\<forall>x\<in>set (dropWhile P xs). P x" by (auto dest: set_dropWhileD)
qed

lemma strip_Nil_iff: "strip s = [] \<longleftrightarrow> (\<forall>c\<in>set s. isspace c)"
  by (simp add: strip_def dropWhile_eq_Nil_conv dropWhile_all_iff)

lemma blank_iff: "blank s \<longleftrightarrow> (\<forall>c\<in>set s. isspace c)"
  by (auto simp: blank_def strip_Nil_iff)

lemma sqrt_gt_20: "20 < sqrt x \<longleftrightarrow> 400 < x"
proof -
  have "sqrt 400 = 20" using real_sqrt_abs2 [of 20] by simp
  then show ?thesis using real_sqrt_less_iff [of 400 x] by simp
qed

section \<open>Properties of the score converter\<close>





section \<open>Properties of the threshold and of the filter\<close>

lemma np_mean_batch_mean: "np_mean scores = batch_mean scores"
  by (simp add: np_mean_def batch_mean_def)

lemma std_score_population_std:
  "scores \<noteq> [] \<Longrightarrow> std_score scores = population_std scores"
proof (cases "length scores = 1")
  case True
  then show ?thesis by (simp add: std_score_def population_std_def)
next
  case False
  assume "scores \<noteq> []"
  then have "length scores \<noteq> 0" by simp
  with False have "1 < length scores" by arith
  with False show ?thesis
    by (simp add: std_score_def population_std_def np_std_def np_mean_def batch_mean_def
        comp_def)
qed

text \<open>
  C4. The threshold is 60 for the empty batch; 70 when the mean of the batch is below 40
  or its population standard deviation (0 for a single-element batch) exceeds 20; and 60
  otherwise.
\<close>

theorem select_threshold_spec:
  "select_threshold scores =
     (if scores = [] then 60
      else if batch_mean scores < 40 \<or> population_std scores > 20 then 70
      else 60)"
  by (simp add: select_threshold_def Let_def np_mean_batch_mean std_score_population_std)

lemma batch_mean_examples: "batch_mean [90, 85, 92] = 89" "batch_mean [30, 35, 32] = 97 / 3"
  "batch_mean [95, 10, 50] = 155 / 3"
  by (simp_all add: batch_mean_def)

lemma population_std_low: "\<not> 20 < population_std [90, 85, 92]"
  by (simp add: population_std_def batch_mean_examples sqrt_gt_20 power2_eq_square)

lemma population_std_high: "20 < population_std [95, 10, 50]"
  by (simp add: population_std_def batch_mean_examples sqrt_gt_20 power2_eq_square)

theorem select_threshold_spec_witness:
  "select_threshold [] = 60 \<and> select_threshold [90, 85, 92] = 60
   \<and> select_threshold [30, 35, 32] = 70 \<and> select_threshold [95, 10, 50] = 70
   \<and> select_threshold [10] = 70 \<and> select_threshold [40] = 60"
  using select_threshold_spec [of "[]"] select_threshold_spec [of "[90, 85, 92]"]
    select_threshold_spec [of "[30, 35, 32]"] select_threshold_spec [of "[95, 10, 50]"]
    select_threshold_spec [of "[10]"] select_threshold_spec [of "[40]"]
  by (simp add: batch_mean_examples population_std_low population_std_high) (simp add: batch_mean_def population_std_def)

text \<open>
  C6. The filter accepts exactly the candidates whose score is greater than or equal to
  the threshold, a score equal to the threshold included, in the order of retrieval: the
  accepted documents are those at the positions \<open>i\<close> with \<open>all_scores ! i \<ge> threshold\<close>,
  by increasing \<open>i\<close>.
\<close>

theorem second_pass_accepts_exactly:
  "second_pass threshold (zip docs_and_scores all_scores) [] =
     map (\<lambda>i. fst (docs_and_scores ! i))
       (filter (\<lambda>i. all_scores ! i \<ge> threshold)
          [0..<min (length docs_and_scores) (length all_scores)])"
  by (simp add: second_pass_eq zip_nth_map [of docs_and_scores all_scores] filter_map comp_def)

theorem second_pass_accepts_exactly_witness:
  "second_pass 60 (zip [(Document ''a'' [], 1 / 10), (Document ''b'' [], 2 / 10),
       (Document ''c'' [], 3 / 10)] [60, 59, 70]) []
   = [Document ''a'' [], Document ''c'' []]"
  using second_pass_accepts_exactly [of 60 "[(Document ''a'' [], 1 / 10),
       (Document ''b'' [], 2 / 10), (Document ''c'' [], 3 / 10)]" "[60, 59, 70]"]
  by simp

text \<open>
  C10. For every batch of relevance scores, the empty one included, the threshold is
  exactly 60 or exactly 70.
\<close>

theorem select_threshold_60_or_70:
  "select_threshold scores = 60 \<or> select_threshold scores = 70"
  by (simp add: select_threshold_def Let_def)

section \<open>Properties of the pipeline\<close>

subsection \<open>The \<^verbatim>\<open>try\<close> body in terms of the accepted documents\<close>

lemma try_block_filtered_docs_of:
  "try_block db chain query =
     (case db query 3 of
        Inl e \<Rightarrow> (Inl e, [Similarity_search query 3])
      | Inr docs_and_scores \<Rightarrow>
          (if filtered_docs_of docs_and_scores = [] then
             (case chain query [] of
                Inl e \<Rightarrow> (Inl e, [Similarity_search query 3, Invoke query []])
              | Inr response \<Rightarrow>
                  (Inr (if result_of response \<noteq> [] then result_of response else fallback_text),
                   [Similarity_search query 3, Invoke query []]))
           else
             (case chain query (join ''\<newline>\<newline>'' (map page_content (filtered_docs_of docs_and_scores))) of
                Inl e \<Rightarrow> (Inl e, [Similarity_search query 3,
                    Invoke query (join ''\<newline>\<newline>'' (map page_content (filtered_docs_of docs_and_scores)))])
              | Inr response \<Rightarrow>
                  (Inr (if blank (result_of response) then apology_text else result_of response),
                   [Similarity_search query 3,
                    Invoke query (join ''\<newline>\<newline>'' (map page_content (filtered_docs_of docs_and_scores)))]))))"
  by (simp add: try_block_def filtered_docs_of_def Let_def split: sum.splits)

text \<open>
  One candidate at distance 1 has a score of at most 25: the mean is below 40, the
  threshold is 70 and the candidate is rejected. One candidate at distance 0 has the score
  100 and is accepted at the threshold 60.
\<close>

lemma score_far: "calculate_relevance_score 1 \<le> 25"
proof -
  have "1 + 3 \<le> exp (3::real)" by (rule exp_ge_add_one_self)
  then have "exp (- 3 :: real) \<le> 1 / 4"
    by (simp add: exp_minus field_simps)
  then show ?thesis by (simp add: calculate_relevance_score_def)
qed

lemma filtered_docs_far: "filtered_docs_of [(d, 1)] = []"
  using score_far by (simp add: filtered_docs_of_def select_threshold_def np_mean_def Let_def)

lemma filtered_docs_near: "filtered_docs_of [(d, 0)] = [d]"
  by (simp add: filtered_docs_of_def select_threshold_def np_mean_def std_score_def
      calculate_relevance_score_def Let_def)

lemma not_blank_hi: "\<not> blank ''hi''"
  by (simp add: blank_iff isspace_def)

subsection \<open>Blank queries\<close>

text \<open>
  C7. For every query that is empty or all whitespace, the pipeline returns the fixed
  prompt-for-input message, whatever the retrieval and the language-model capabilities
  are, and calls neither of them.
\<close>

theorem blank_query_short_circuit:
  assumes "\<forall>c\<in>set query. isspace c"
  shows "get_rag_response db chain query = (Inr prompt_for_input, [])"
  using assms by (simp add: get_rag_response_def blank_iff)

theorem blank_query_short_circuit_witness:
  "get_rag_response broken_db broken_chain ''   '' = (Inr ''Please provide a valid question.'', [])
   \<and> get_rag_response broken_db broken_chain [] = (Inr ''Please provide a valid question.'', [])"
proof -
  have h: "\<forall>c\<in>set ''   ''. isspace c" by (simp add: isspace_def)
  have e: "\<forall>c\<in>set ([]::string). isspace c" by simp
  show ?thesis
    using blank_query_short_circuit [OF h, of broken_db broken_chain]
      blank_query_short_circuit [OF e, of broken_db broken_chain]
    by (simp add: prompt_for_input_def)
qed

subsection \<open>Exceptions of the collaborators\<close>

lemma get_rag_response_Inr: "\<exists>answer. fst (get_rag_response db chain query) = Inr answer"
  by (simp add: get_rag_response_def split: prod.splits sum.splits)

lemma search_raises:
  "\<not> blank query \<Longrightarrow> db query 3 = Inl e \<Longrightarrow>
   get_rag_response db chain query =
     (Inr (''Error processing query: '' @ str e), [Similarity_search query 3])"
  by (simp add: get_rag_response_def try_block_def)

lemma invoke_raises:
  assumes "Invoke query context \<in> set (snd (get_rag_response db chain query))"
    and "chain query context = Inl e"
  shows "fst (get_rag_response db chain query) = Inr (''Error processing query: '' @ str e)"
proof (cases "blank query")
  case True
  with assms(1) show ?thesis by (simp add: get_rag_response_def)
next
  case False
  show ?thesis
  proof (cases "db query 3")
    case (Inl e')
    with False assms(1) show ?thesis by (simp add: search_raises)
  next
    case (Inr docs_and_scores)
    with False assms show ?thesis
      by (auto simp: get_rag_response_def try_block_filtered_docs_of
          split: if_splits sum.splits)
  qed
qed

text \<open>
  C5. The pipeline always returns a text and never an exception. When the retrieval
  capability raises \<open>e\<close>, and when the chain, invoked by the pipeline with some context,
  raises \<open>e\<close>, the text returned is \<^verbatim>\<open>"Error processing query: "\<close> followed by
  \<^verbatim>\<open>str(e)\<close>.
\<close>

theorem get_rag_response_absorbs_exceptions:
  "(\<exists>answer. fst (get_rag_response db chain query) = Inr answer)
   \<and> (\<not> blank query \<and> db query 3 = Inl e \<longrightarrow>
        fst (get_rag_response db chain query) = Inr (''Error processing query: '' @ str e))
   \<and> (Invoke query context \<in> set (snd (get_rag_response db chain query))
        \<and> chain query context = Inl e \<longrightarrow>
        fst (get_rag_response db chain query) = Inr (''Error processing query: '' @ str e))"
  using get_rag_response_Inr [of db chain query] search_raises [of query db e chain]
    invoke_raises [of query "context" db chain e]
  by simp

lemma far_broken_calls:
  "snd (get_rag_response far_db broken_chain ''hi'') = [Similarity_search ''hi'' 3, Invoke ''hi'' []]"
  by (simp add: get_rag_response_def not_blank_hi try_block_filtered_docs_of far_db_def
      filtered_docs_far broken_chain_def)

theorem get_rag_response_absorbs_exceptions_witness:
  "fst (get_rag_response broken_db fixed_chain ''hi'') = Inr ''Error processing query: connection refused''
   \<and> fst (get_rag_response far_db broken_chain ''hi'') = Inr ''Error processing query: model not found''"
  using get_rag_response_absorbs_exceptions
      [of broken_db fixed_chain "''hi''" "Exception ''connection refused''" "[]"]
    get_rag_response_absorbs_exceptions
      [of far_db broken_chain "''hi''" "Exception ''model not found''" "[]"]
  by (simp add: not_blank_hi broken_db_def far_broken_calls broken_chain_def)

subsection \<open>Blank answers of the language model\<close>

text \<open>
  C2, as amended. On the evidence path (at least one candidate accepted), a text of the
  chain that is empty or all whitespace is replaced by the fixed apology. On the
  no-evidence path (no candidate accepted) the guard is a different one: an empty text of
  the chain is replaced by the fixed general-knowledge fallback text.
\<close>

theorem blank_answer_guard_by_path:
  assumes "\<not> blank query" and "db query 3 = Inr docs_and_scores"
  shows "(filtered_docs_of docs_and_scores \<noteq> []
          \<and> chain query (join ''\<newline>\<newline>'' (map page_content (filtered_docs_of docs_and_scores)))
              = Inr response
          \<and> (\<forall>c\<in>set (result_of response). isspace c)
          \<longrightarrow> fst (get_rag_response db chain query) = Inr apology_text)
       \<and> (filtered_docs_of docs_and_scores = []
          \<and> chain query [] = Inr response \<and> result_of response = []
          \<longrightarrow> fst (get_rag_response db chain query) = Inr fallback_text)"
  using assms
  by (simp add: get_rag_response_def try_block_filtered_docs_of
      blank_iff [of "result_of response", symmetric])

theorem blank_answer_guard_by_path_witness:
  "fst (get_rag_response near_db silent_chain ''hi'') = Inr apology_text
   \<and> fst (get_rag_response far_db silent_chain ''hi'') = Inr fallback_text"
  using blank_answer_guard_by_path [OF not_blank_hi, of near_db "[(cheese_doc, 0)]" silent_chain
      "Dict [(''query'', ''hi''), (''result'', [])]"]
    blank_answer_guard_by_path [OF not_blank_hi, of far_db "[(cheese_doc, 1)]" silent_chain
      "Dict [(''query'', ''hi''), (''result'', [])]"]
  by (simp add: near_db_def far_db_def filtered_docs_near filtered_docs_far silent_chain_def
      result_of_def)

text \<open>
  The guard as first stated, the apology on both paths, fails on the no-evidence path:
  with the only candidate rejected and a chain that returns the empty text, the pipeline
  returns the fallback text, which is not the apology.
\<close>

theorem blank_answer_guard_counterexample:
  "silent_chain ''hi'' [] = Inr (Dict [(''query'', ''hi''), (''result'', [])])
   \<and> get_rag_response far_db silent_chain ''hi''
       = (Inr fallback_text, [Similarity_search ''hi'' 3, Invoke ''hi'' []])
   \<and> fallback_text \<noteq> apology_text"
  by (simp add: get_rag_response_def not_blank_hi try_block_filtered_docs_of far_db_def
      filtered_docs_far silent_chain_def result_of_def)
    (simp add: fallback_text_def apology_text_def)

subsection \<open>The prompt on the no-evidence path\<close>

text \<open>
  On the no-evidence path the pipeline passes the empty string under the key
  \<^verbatim>\<open>"context"\<close>. The chain does not read that key: the prompt it builds is the same for
  every context passed, and holds the text of the chunks its own retriever returns.
\<close>

lemma no_evidence_invokes_with_empty_context:
  assumes "\<not> blank query" and "db query 3 = Inr docs_and_scores"
    and "filtered_docs_of docs_and_scores = []"
  shows "snd (get_rag_response db chain query) = [Similarity_search query 3, Invoke query []]"
  using assms
  by (simp add: get_rag_response_def try_block_filtered_docs_of split: sum.splits)

lemma qa_chain_prompt_ignores_context:
  "qa_chain_prompt db query context = qa_chain_prompt db query []"
  by (simp add: qa_chain_prompt_def)

lemma custom_prompt_contains_context: "sublist context (custom_prompt context question)"
  unfolding custom_prompt_def sublist_def by (metis append.assoc)

text \<open>
  C1. With \<open>far_db\<close> the only candidate is rejected, and the pipeline invokes the chain
  with the empty context. The chain of the source, \<open>qa_chain far_db fixed_llm\<close>, then
  sends the language model a prompt that contains the text of the rejected chunk.
\<close>

theorem no_evidence_prompt_contains_chunk:
  "filtered_docs_of [(cheese_doc, 1)] = []
   \<and> get_rag_response far_db (qa_chain far_db fixed_llm) ''hi''
       = (Inr ''42'', [Similarity_search ''hi'' 3, Invoke ''hi'' []])
   \<and> qa_chain_prompt far_db ''hi'' []
       = Inr (custom_prompt ''The moon is made of green cheese.'' ''hi'')
   \<and> sublist ''The moon is made of green cheese.''
        (custom_prompt ''The moon is made of green cheese.'' ''hi'')"
proof -
  have "get_rag_response far_db (qa_chain far_db fixed_llm) ''hi''
       = (Inr ''42'', [Similarity_search ''hi'' 3, Invoke ''hi'' []])"
    by (simp add: get_rag_response_def not_blank_hi try_block_filtered_docs_of far_db_def
      filtered_docs_far qa_chain_def qa_chain_prompt_def retriever_def fixed_llm_def
      result_of_def)
  moreover have "qa_chain_prompt far_db ''hi'' []
       = Inr (custom_prompt ''The moon is made of green cheese.'' ''hi'')"
    by (simp add: qa_chain_prompt_def retriever_def far_db_def cheese_doc_def)
  ultimately show ?thesis
    by (simp add: filtered_docs_far custom_prompt_contains_context)
qed

section \<open>Properties of the endpoint\<close>

lemma rag_chat_no_message:
  "map_of kvs ''message'' = None \<Longrightarrow>
   rag_chat str_http db chain (Inr (JObj kvs))
     = Inl (HTTPException 500 (str_http (HTTPException 400 ''No message provided in request'')))"
  by (simp add: rag_chat_def rag_chat_try_def body_get_def str_raised_def)

lemma rag_chat_json_failure:
  "rag_chat str_http db chain (Inl e) = Inl (HTTPException 500 (str e))"
  by (simp add: rag_chat_def rag_chat_try_def str_raised_def)

text \<open>
  C3. A request whose JSON body has no \<^verbatim>\<open>message\<close> field: the \<open>HTTPException\<close> with
  status 400 is raised inside the \<^verbatim>\<open>try\<close> body, caught by \<^verbatim>\<open>except Exception\<close>
  and raised again with status 500, so the response is a server error and not a client
  error.
\<close>

theorem rag_chat_missing_message_status_500:
  "rag_chat str_http db chain (Inr (JObj [(''text'', JStr ''hi'')]))
     = Inl (HTTPException 500 (str_http (HTTPException 400 ''No message provided in request'')))
   \<and> response_status (rag_chat str_http db chain (Inr (JObj [(''text'', JStr ''hi'')]))) = 500"
  by (simp add: rag_chat_no_message response_status_def)

end
